theory Spec2Isabelle
  imports Main
begin

section \<open>Python values\<close>

text \<open>
  The handler of \<^verbatim>\<open>src/lambda_function.py\<close> works on dynamically typed values: the event,
  the decoded request body and the provider's reply are whatever JSON can carry. A Python
  \<^verbatim>\<open>str\<close> is a sequence of Unicode code points, so it is a list of naturals here; \<open>lit\<close>
  turns an ASCII literal of the source into that form.
\<close>

type_synonym pystr = "nat list"

definition lit :: "string \<Rightarrow> pystr" where
  "lit s = map of_char s"

text \<open>
  A float is kept by the two things the handler can observe of it: its truth value
  (\<open>True\<close> when it is not zero) and the text \<^verbatim>\<open>json.dumps\<close> writes for it. A dictionary is
  an association list in insertion order; its keys are strings, as in every decoded JSON
  object.
\<close>

datatype pyvalue =
    PNone
  | PBool bool
  | PInt int
  | PFloat bool pystr
  | PStr pystr
  | PList "pyvalue list"
  | PDict "(pystr \<times> pyvalue) list"

text \<open>
  The exceptions the handler tells apart, each an instance of \<^verbatim>\<open>Exception\<close>. The two
  provider exceptions and \<open>OtherException\<close> carry \<^verbatim>\<open>str(e)\<close>.
\<close>

datatype exn =
    UnsupportedLanguagePairException pystr
  | InvalidRequestException pystr
  | JSONDecodeError pystr
  | KeyError
  | TypeError
  | AttributeError
  | OtherException pystr

text \<open>Truth value testing: \<^verbatim>\<open>bool(v)\<close>.\<close>

fun truthy :: "pyvalue \<Rightarrow> bool" where
  "truthy PNone = False"
| "truthy (PBool b) = b"
| "truthy (PInt i) = (i \<noteq> 0)"
| "truthy (PFloat nonzero r) = nonzero"
| "truthy (PStr s) = (s \<noteq> [])"
| "truthy (PList xs) = (xs \<noteq> [])"
| "truthy (PDict kvs) = (kvs \<noteq> [])"

text \<open>\<^verbatim>\<open>sub in s\<close> on strings: \<open>sub\<close> occurs in \<open>s\<close> as a contiguous run.\<close>

fun str_contains :: "pystr \<Rightarrow> pystr \<Rightarrow> bool" where
  "str_contains [] sub = (sub = [])"
| "str_contains (c # cs) sub = (take (length sub) (c # cs) = sub \<or> str_contains cs sub)"

text \<open>
  \<^verbatim>\<open>key in container\<close> for a string key: key membership on a dictionary, element
  membership on a list, substring test on a string, and \<^verbatim>\<open>TypeError\<close> on a value that is
  not a container.
\<close>

fun py_contains :: "pyvalue \<Rightarrow> pystr \<Rightarrow> exn + bool" where
  "py_contains (PDict kvs) k = Inr (map_of kvs k \<noteq> None)"
| "py_contains (PList xs) k = Inr (PStr k \<in> set xs)"
| "py_contains (PStr s) k = Inr (str_contains s k)"
| "py_contains PNone k = Inl TypeError"
| "py_contains (PBool b) k = Inl TypeError"
| "py_contains (PInt i) k = Inl TypeError"
| "py_contains (PFloat nonzero r) k = Inl TypeError"

text \<open>
  \<^verbatim>\<open>container[key]\<close> for a string key: \<^verbatim>\<open>KeyError\<close> on a dictionary without the key,
  \<^verbatim>\<open>TypeError\<close> on everything else (a list or a string takes integer indices, the rest
  is not subscriptable).
\<close>

fun py_getitem :: "pyvalue \<Rightarrow> pystr \<Rightarrow> exn + pyvalue" where
  "py_getitem (PDict kvs) k = (case map_of kvs k of None \<Rightarrow> Inl KeyError | Some v \<Rightarrow> Inr v)"
| "py_getitem v k = Inl TypeError"

text \<open>\<^verbatim>\<open>container.get(key, default)\<close>: only a dictionary has the method.\<close>

fun py_get :: "pyvalue \<Rightarrow> pystr \<Rightarrow> pyvalue \<Rightarrow> exn + pyvalue" where
  "py_get (PDict kvs) k d = Inr (case map_of kvs k of None \<Rightarrow> d | Some v \<Rightarrow> v)"
| "py_get v k d = Inl AttributeError"

text \<open>
  \<^verbatim>\<open>str.strip()\<close> removes leading and trailing whitespace: the code points for which
  \<^verbatim>\<open>str.isspace\<close> holds.
\<close>

definition isspace :: "nat \<Rightarrow> bool" where
  "isspace c \<longleftrightarrow>
     (9 \<le> c \<and> c \<le> 13) \<or> (28 \<le> c \<and> c \<le> 32) \<or> c = 133 \<or> c = 160 \<or> c = 5760 \<or>
     (8192 \<le> c \<and> c \<le> 8202) \<or> c = 8232 \<or> c = 8233 \<or> c = 8239 \<or> c = 8287 \<or> c = 12288"

definition strip :: "pystr \<Rightarrow> pystr" where
  "strip s = rev (dropWhile isspace (rev (dropWhile isspace s)))"

section \<open>json.dumps\<close>

text \<open>
  The encoder with its default options: \<^verbatim>\<open>ensure_ascii\<close>, the separators \<^verbatim>\<open>", "\<close> and
  \<^verbatim>\<open>": "\<close>, keys in insertion order.
\<close>

definition hex_digit :: "nat \<Rightarrow> nat" where
  "hex_digit d = (if d < 10 then 48 + d else 87 + d)"

definition hex4 :: "nat \<Rightarrow> pystr" where
  "hex4 n = [hex_digit (n div 4096 mod 16), hex_digit (n div 256 mod 16),
             hex_digit (n div 16 mod 16), hex_digit (n mod 16)]"

definition unicode_escape :: "nat \<Rightarrow> pystr" where
  \<comment> \<open>a backslash, the letter u, four lower-case hexadecimal digits\<close>
  "unicode_escape n = [92, 117] @ hex4 n"

definition escape_char :: "nat \<Rightarrow> pystr" where
  \<comment> \<open>92 is the backslash, 34 the double quote; the letters are n, r, t, b, f\<close>
  "escape_char c =
     (if c = 34 then [92, 34]
      else if c = 92 then [92, 92]
      else if c = 10 then [92, 110]
      else if c = 13 then [92, 114]
      else if c = 9 then [92, 116]
      else if c = 8 then [92, 98]
      else if c = 12 then [92, 102]
      else if 32 \<le> c \<and> c \<le> 126 then [c]
      else if c < 65536 then unicode_escape c
      else unicode_escape (55296 + (c - 65536) div 1024 mod 1024)
           @ unicode_escape (56320 + (c - 65536) mod 1024))"

definition encode_basestring_ascii :: "pystr \<Rightarrow> pystr" where
  "encode_basestring_ascii s = [34] @ concat (map escape_char s) @ [34]"

fun digits :: "nat \<Rightarrow> pystr" where
  "digits n = (if n < 10 then [48 + n] else digits (n div 10) @ [48 + n mod 10])"

declare digits.simps [simp del]

definition int_repr :: "int \<Rightarrow> pystr" where
  "int_repr i = (if i < 0 then [45] @ digits (nat (- i)) else digits (nat i))"

fun join :: "pystr \<Rightarrow> pystr list \<Rightarrow> pystr" where
  "join sep [] = []"
| "join sep [x] = x"
| "join sep (x # y # ys) = x @ sep @ join sep (y # ys)"

fun json_dumps :: "pyvalue \<Rightarrow> pystr" where
  "json_dumps PNone = lit ''null''"
| "json_dumps (PBool b) = (if b then lit ''true'' else lit ''false'')"
| "json_dumps (PInt i) = int_repr i"
| "json_dumps (PFloat nonzero r) = r"
| "json_dumps (PStr s) = encode_basestring_ascii s"
| "json_dumps (PList xs) = [91] @ join (lit '', '') (map json_dumps xs) @ [93]"
| "json_dumps (PDict kvs) =
     [123] @ join (lit '', '')
       (map (\<lambda>kv. encode_basestring_ascii (fst kv) @ lit '': '' @ json_dumps (snd kv)) kvs)
     @ [125]"

section \<open>datetime\<close>

text \<open>
  \<^verbatim>\<open>datetime.utcnow()\<close> gives a naive datetime; \<^verbatim>\<open>isoformat()\<close> writes it as
  \<^verbatim>\<open>YYYY-MM-DDTHH:MM:SS.ffffff\<close>, and without the fraction when the microsecond is zero.
  \<open>zero_pad n\<close> is the format \<^verbatim>\<open>%0nd\<close>.
\<close>

record datetime =
  year :: nat
  month :: nat
  day :: nat
  hour :: nat
  minute :: nat
  second :: nat
  microsecond :: nat

definition zero_pad :: "nat \<Rightarrow> nat \<Rightarrow> pystr" where
  "zero_pad n k = replicate (n - length (digits k)) 48 @ digits k"

definition isoformat :: "datetime \<Rightarrow> pystr" where
  "isoformat dt =
     zero_pad 4 (year dt) @ [45] @ zero_pad 2 (month dt) @ [45] @ zero_pad 2 (day dt) @ [84]
     @ zero_pad 2 (hour dt) @ [58] @ zero_pad 2 (minute dt) @ [58] @ zero_pad 2 (second dt)
     @ (if microsecond dt = 0 then [] else [46] @ zero_pad 6 (microsecond dt))"




text \<open>
  Reading a timestamp back, as \<^verbatim>\<open>datetime.fromisoformat\<close> does in the repository's test:
  the ISO-8601 extended layout with the separator \<^verbatim>\<open>T\<close>, with or without six digits of
  fraction. \<open>None\<close> is the \<^verbatim>\<open>ValueError\<close>.
\<close>

definition isdigit :: "nat \<Rightarrow> bool" where
  "isdigit c \<longleftrightarrow> 48 \<le> c \<and> c \<le> 57"



section \<open>The handler\<close>

text \<open>
  The response envelope is the dictionary the handler returns: \<^verbatim>\<open>statusCode\<close>, \<^verbatim>\<open>body\<close>
  and, on success only, \<^verbatim>\<open>headers\<close>. The invocation context is the Lambda runtime's
  context object, of which the handler reads \<^verbatim>\<open>aws_request_id\<close>, or \<^verbatim>\<open>None\<close> as in the
  repository's tests; the object defines neither \<^verbatim>\<open>__bool__\<close> nor \<^verbatim>\<open>__len__\<close>, so a
  supplied context is true.
\<close>

record envelope =
  statusCode :: int
  headers :: "(pystr \<times> pystr) list option"
  body :: pystr

record lambda_context =
  aws_request_id :: pystr

text \<open>\<^verbatim>\<open>{'statusCode': code, 'body': json.dumps(payload)}\<close>\<close>

definition error_envelope :: "int \<Rightarrow> (pystr \<times> pyvalue) list \<Rightarrow> envelope" where
  "error_envelope code payload =
     \<lparr>statusCode = code, headers = None, body = json_dumps (PDict payload)\<rparr>"

definition required_fields :: "pystr list" where
  "required_fields = [lit ''text'', lit ''target_language'']"

text \<open>
  The loop of \<^verbatim>\<open>validate_input\<close> over the required fields: \<open>Some\<close> is its early return at
  the first field that is not in the body, \<open>None\<close> is the loop running to its end.
\<close>

fun check_required :: "pystr list \<Rightarrow> pyvalue \<Rightarrow> exn + envelope option" where
  "check_required [] bdy = Inr None"
| "check_required (field # rest) bdy =
     (case py_contains bdy field of
        Inl e \<Rightarrow> Inl e
      | Inr present \<Rightarrow>
          if \<not> present
          then Inr (Some (error_envelope 400
                 [(lit ''error'', PStr (lit ''Missing required field: '' @ field))]))
          else check_required rest bdy)"

definition validate_input :: "pyvalue \<Rightarrow> exn + (bool \<times> envelope option)" where
  "validate_input bdy =
     (if \<not> truthy bdy
      then Inr (False, Some (error_envelope 400
             [(lit ''error'', PStr (lit ''Request body is empty''))]))
      else
        (case check_required required_fields bdy of
           Inl e \<Rightarrow> Inl e
         | Inr (Some r) \<Rightarrow> Inr (False, Some r)
         | Inr None \<Rightarrow>
             (case py_getitem bdy (lit ''text'') of
                Inl e \<Rightarrow> Inl e
              | Inr (PStr s) \<Rightarrow>
                  if strip s = []
                  then Inr (False, Some (error_envelope 400
                         [(lit ''error'', PStr (lit ''Text field must be a non-empty string''))]))
                  else Inr (True, None)
              | Inr _ \<Rightarrow>
                  Inr (False, Some (error_envelope 400
                    [(lit ''error'', PStr (lit ''Text field must be a non-empty string''))])))))"

text \<open>
  The first statement of the \<^verbatim>\<open>try\<close> block: \<^verbatim>\<open>json.loads\<close> when the event's body is a
  string, the body itself otherwise. The decoder \<open>loads\<close> is the standard library's; it
  raises \<^verbatim>\<open>JSONDecodeError\<close> on a string that is not a JSON document.
\<close>

definition parse_body :: "(pystr \<Rightarrow> exn + pyvalue) \<Rightarrow> pyvalue \<Rightarrow> exn + pyvalue" where
  "parse_body loads event =
     (case py_getitem event (lit ''body'') of
        Inl e \<Rightarrow> Inl e
      | Inr (PStr s) \<Rightarrow> loads s
      | Inr b \<Rightarrow> Inr b)"

text \<open>
  The \<^verbatim>\<open>try\<close> block of \<^verbatim>\<open>lambda_handler\<close>. \<open>Inl\<close> is an exception leaving the block,
  \<open>Inr\<close> the value of a \<^verbatim>\<open>return\<close> statement (\<open>None\<close> is Python's \<^verbatim>\<open>None\<close>). The provider
  \<open>translate_text\<close> takes \<^verbatim>\<open>Text\<close>, \<^verbatim>\<open>SourceLanguageCode\<close> and \<^verbatim>\<open>TargetLanguageCode\<close>;
  \<open>utcnow\<close> is the clock read when the result is built. The calls of the logger do not
  touch the returned value and are left out.
\<close>

definition handler_try ::
  "(pystr \<Rightarrow> exn + pyvalue) \<Rightarrow> (pyvalue \<Rightarrow> pyvalue \<Rightarrow> pyvalue \<Rightarrow> exn + pyvalue) \<Rightarrow> datetime
   \<Rightarrow> pyvalue \<Rightarrow> exn + envelope option" where
  "handler_try loads translate_text utcnow event =
     (case parse_body loads event of
        Inl e \<Rightarrow> Inl e
      | Inr bdy \<Rightarrow>
     (case validate_input bdy of
        Inl e \<Rightarrow> Inl e
      | Inr (is_valid, error_response) \<Rightarrow>
          if \<not> is_valid then Inr error_response
          else
     (case py_getitem bdy (lit ''text'') of
        Inl e \<Rightarrow> Inl e
      | Inr text \<Rightarrow>
     (case py_getitem bdy (lit ''target_language'') of
        Inl e \<Rightarrow> Inl e
      | Inr target_language \<Rightarrow>
     (case py_get bdy (lit ''source_language'') (PStr (lit ''auto'')) of
        Inl e \<Rightarrow> Inl e
      | Inr source_language \<Rightarrow>
     (case translate_text text source_language target_language of
        Inl e \<Rightarrow> Inl e
      | Inr response \<Rightarrow>
     (case py_getitem response (lit ''TranslatedText'') of
        Inl e \<Rightarrow> Inl e
      | Inr translated \<Rightarrow>
     (case py_getitem response (lit ''SourceLanguageCode'') of
        Inl e \<Rightarrow> Inl e
      | Inr source_code \<Rightarrow>
     (case py_getitem response (lit ''TargetLanguageCode'') of
        Inl e \<Rightarrow> Inl e
      | Inr target_code \<Rightarrow>
          Inr (Some
            \<lparr>statusCode = 200,
             headers = Some [(lit ''Content-Type'', lit ''application/json''),
                             (lit ''Access-Control-Allow-Origin'', lit ''*'')],
             body = json_dumps (PDict
               [(lit ''translated_text'', translated),
                (lit ''detected_source_language'', source_code),
                (lit ''target_language'', target_code),
                (lit ''timestamp'', PStr (isoformat utcnow))])\<rparr>))))))))))"

text \<open>
  The \<^verbatim>\<open>except\<close> clauses in their order; the last one, \<^verbatim>\<open>except Exception\<close>, takes every
  exception the first three leave.
\<close>

definition handle_exception :: "lambda_context option \<Rightarrow> exn \<Rightarrow> envelope" where
  "handle_exception ctx e =
     (case e of
        UnsupportedLanguagePairException msg \<Rightarrow>
          error_envelope 400
            [(lit ''error'', PStr (lit ''Unsupported language pair'')), (lit ''detail'', PStr msg)]
      | InvalidRequestException msg \<Rightarrow>
          error_envelope 400 [(lit ''error'', PStr msg)]
      | JSONDecodeError msg \<Rightarrow>
          error_envelope 400 [(lit ''error'', PStr (lit ''Invalid JSON in request body''))]
      | _ \<Rightarrow>
          error_envelope 500
            [(lit ''error'', PStr (lit ''Internal server error'')),
             (lit ''request_id'',
              (case ctx of None \<Rightarrow> PNone | Some c \<Rightarrow> PStr (aws_request_id c)))])"

definition lambda_handler ::
  "(pystr \<Rightarrow> exn + pyvalue) \<Rightarrow> (pyvalue \<Rightarrow> pyvalue \<Rightarrow> pyvalue \<Rightarrow> exn + pyvalue) \<Rightarrow> datetime
   \<Rightarrow> pyvalue \<Rightarrow> lambda_context option \<Rightarrow> envelope option" where
  "lambda_handler loads translate_text utcnow event ctx =
     (case handler_try loads translate_text utcnow event of
        Inr result \<Rightarrow> result
      | Inl e \<Rightarrow> Some (handle_exception ctx e))"

section \<open>The fixtures of the test suite\<close>

text \<open>
  The values of \<^verbatim>\<open>tests/test_lambda_function.py\<close>: the reply of the mocked provider, the
  provider faults the tests raise, the events, and \<^verbatim>\<open>json.loads\<close> on the body strings the
  fixtures carry (a string outside the table is rejected, as the malformed one is).
\<close>

definition mock_translate :: "pyvalue \<Rightarrow> pyvalue \<Rightarrow> pyvalue \<Rightarrow> exn + pyvalue" where
  \<comment> \<open>161 is the inverted exclamation mark\<close>
  "mock_translate text source_language target_language =
     Inr (PDict [(lit ''TranslatedText'', PStr ([161] @ lit ''Hola mundo!'')),
                 (lit ''SourceLanguageCode'', PStr (lit ''en'')),
                 (lit ''TargetLanguageCode'', PStr (lit ''es''))])"




definition hello_request :: "(pystr \<times> pyvalue) list" where
  "hello_request = [(lit ''text'', PStr (lit ''Hello world!'')),
                    (lit ''target_language'', PStr (lit ''es''))]"

definition fixture_documents :: "(pystr \<times> pyvalue) list" where
  "fixture_documents =
     [(lit ''{\"text\": \"Hello world!\", \"target_language\": \"es\"}'', PDict hello_request),
      (lit ''{\"text\": \"Hello world!\"}'', PDict [(lit ''text'', PStr (lit ''Hello world!''))]),
      (lit ''{\"text\": \"\", \"target_language\": \"es\"}'',
       PDict [(lit ''text'', PStr []), (lit ''target_language'', PStr (lit ''es''))]),
      (lit ''{}'', PDict []),
      (lit ''null'', PNone),
      (lit ''true'', PBool True),
      (lit ''5'', PInt 5)]"

definition fixture_loads :: "pystr \<Rightarrow> exn + pyvalue" where
  "fixture_loads s =
     (case map_of fixture_documents s of
        Some v \<Rightarrow> Inr v
      | None \<Rightarrow> Inl (JSONDecodeError (lit ''Expecting value: line 1 column 1 (char 0)'')))"

definition valid_event :: pyvalue where
  "valid_event =
     PDict [(lit ''body'', PStr (lit ''{\"text\": \"Hello world!\", \"target_language\": \"es\"}''))]"




definition test_context :: lambda_context where
  "test_context = \<lparr>aws_request_id = lit ''test-request-id''\<rparr>"

definition leap_day_morning :: datetime where
  "leap_day_morning =
     \<lparr>year = 2024, month = 2, day = 29, hour = 7, minute = 5, second = 9, microsecond = 1234\<rparr>"

definition new_year_midnight :: datetime where
  "new_year_midnight =
     \<lparr>year = 2025, month = 1, day = 1, hour = 0, minute = 0, second = 0, microsecond = 0\<rparr>"

section \<open>Strings and timestamps\<close>

lemma lit_eq_iff [simp]: "lit s = lit t \<longleftrightarrow> s = t"
  by (simp add: lit_def inj_map_eq_map [OF inj_of_char])

text \<open>Stripping leaves nothing exactly when every code point is whitespace.\<close>

lemma strip_empty_iff: "strip s = [] \<longleftrightarrow> list_all isspace s"
proof -
  have "(\<forall>x\<in>set (dropWhile isspace s). isspace x) \<longleftrightarrow> dropWhile isspace s = []"
  proof
    assume all: "\<forall>x\<in>set (dropWhile isspace s). isspace x"
    show "dropWhile isspace s = []"
    proof (rule ccontr)
      assume ne: "dropWhile isspace s \<noteq> []"
      then have "\<not> isspace (hd (dropWhile isspace s))" by (rule hd_dropWhile)
      moreover have "hd (dropWhile isspace s) \<in> set (dropWhile isspace s)" using ne by simp
      ultimately show False using all by blast
    qed
  qed (auto dest: set_dropWhileD)
  then show ?thesis
    by (simp add: strip_def list_all_iff dropWhile_eq_Nil_conv)
qed

text \<open>Decimal digits, zero padding and reading them back.\<close>

lemma isdigit_digit: "d < 10 \<Longrightarrow> isdigit (48 + d)"
  by (simp add: isdigit_def)

lemma digits_all_digit: "list_all isdigit (digits n)"
proof (induction n rule: digits.induct)
  case (1 n)
  show ?case
  proof (cases "n < 10")
    case True
    then show ?thesis by (subst digits.simps) (simp add: isdigit_digit)
  next
    case False
    with 1 show ?thesis by (subst digits.simps) (simp add: isdigit_digit)
  qed
qed










section \<open>Validation\<close>

lemma validate_input_dict:
  "validate_input (PDict kvs) =
     (if kvs = [] then
        Inr (False, Some (error_envelope 400 [(lit ''error'', PStr (lit ''Request body is empty''))]))
      else if map_of kvs (lit ''text'') = None then
        Inr (False, Some (error_envelope 400
          [(lit ''error'', PStr (lit ''Missing required field: '' @ lit ''text''))]))
      else if map_of kvs (lit ''target_language'') = None then
        Inr (False, Some (error_envelope 400
          [(lit ''error'', PStr (lit ''Missing required field: '' @ lit ''target_language''))]))
      else (case map_of kvs (lit ''text'') of
              Some (PStr s) \<Rightarrow>
                if strip s = [] then
                  Inr (False, Some (error_envelope 400
                    [(lit ''error'', PStr (lit ''Text field must be a non-empty string''))]))
                else Inr (True, None)
            | _ \<Rightarrow>
                Inr (False, Some (error_envelope 400
                  [(lit ''error'', PStr (lit ''Text field must be a non-empty string''))]))))"
  by (auto simp: validate_input_def required_fields_def split: option.splits pyvalue.splits)



section \<open>The paths of the handler\<close>

lemma parse_body_fixture:
  "parse_body fixture_loads (PDict [(lit ''body'', PStr s)]) = fixture_loads s"
  "parse_body loads (PDict [(lit ''body'', PDict kvs)]) = Inr (PDict kvs)"
  by (simp_all add: parse_body_def)



lemma handler_try_valid:
  assumes "parse_body loads event = Inr (PDict kvs)"
    and "map_of kvs (lit ''text'') = Some (PStr t)" and "strip t \<noteq> []"
    and "map_of kvs (lit ''target_language'') = Some tgt"
    and "py_get (PDict kvs) (lit ''source_language'') (PStr (lit ''auto'')) = Inr src"
  shows "handler_try loads translate_text utcnow event =
     (case translate_text (PStr t) src tgt of
        Inl e \<Rightarrow> Inl e
      | Inr response \<Rightarrow>
     (case py_getitem response (lit ''TranslatedText'') of
        Inl e \<Rightarrow> Inl e
      | Inr translated \<Rightarrow>
     (case py_getitem response (lit ''SourceLanguageCode'') of
        Inl e \<Rightarrow> Inl e
      | Inr source_code \<Rightarrow>
     (case py_getitem response (lit ''TargetLanguageCode'') of
        Inl e \<Rightarrow> Inl e
      | Inr target_code \<Rightarrow>
          Inr (Some
            \<lparr>statusCode = 200,
             headers = Some [(lit ''Content-Type'', lit ''application/json''),
                             (lit ''Access-Control-Allow-Origin'', lit ''*'')],
             body = json_dumps (PDict
               [(lit ''translated_text'', translated),
                (lit ''detected_source_language'', source_code),
                (lit ''target_language'', target_code),
                (lit ''timestamp'', PStr (isoformat utcnow))])\<rparr>)))))"
proof -
  have "kvs \<noteq> []" using assms(2) by auto
  then have "validate_input (PDict kvs) = Inr (True, None)"
    using assms(2-4) by (simp add: validate_input_dict)
  then show ?thesis
    using assms by (simp add: handler_try_def del: py_get.simps)
qed

lemma handler_succeeds:
  assumes "parse_body loads event = Inr (PDict kvs)"
    and "map_of kvs (lit ''text'') = Some (PStr t)" and "strip t \<noteq> []"
    and "map_of kvs (lit ''target_language'') = Some tgt"
    and "py_get (PDict kvs) (lit ''source_language'') (PStr (lit ''auto'')) = Inr src"
    and "translate_text (PStr t) src tgt = Inr reply"
    and "py_getitem reply (lit ''TranslatedText'') = Inr translated"
    and "py_getitem reply (lit ''SourceLanguageCode'') = Inr source_code"
    and "py_getitem reply (lit ''TargetLanguageCode'') = Inr target_code"
  shows "lambda_handler loads translate_text utcnow event ctx =
           Some \<lparr>statusCode = 200,
                 headers = Some [(lit ''Content-Type'', lit ''application/json''),
                                 (lit ''Access-Control-Allow-Origin'', lit ''*'')],
                 body = json_dumps (PDict
                   [(lit ''translated_text'', translated),
                    (lit ''detected_source_language'', source_code),
                    (lit ''target_language'', target_code),
                    (lit ''timestamp'', PStr (isoformat utcnow))])\<rparr>"
  using assms(6-9)
  by (simp add: lambda_handler_def handler_try_valid [OF assms(1-5)] del: json_dumps.simps)



text \<open>An event without the key \<open>body\<close>: the lookup raises, the catch-all answers.\<close>

lemma event_without_body_key:
  assumes "map_of ev (lit ''body'') = None"
  shows "lambda_handler loads translate_text utcnow (PDict ev) ctx =
           Some (error_envelope 500
             [(lit ''error'', PStr (lit ''Internal server error'')),
              (lit ''request_id'',
               (case ctx of None \<Rightarrow> PNone | Some c \<Rightarrow> PStr (aws_request_id c)))])"
  using assms
  by (simp add: lambda_handler_def handler_try_def parse_body_def handle_exception_def)

section \<open>The bodies as text\<close>

text \<open>A timestamp holds digits and separators only; the encoder leaves them as they are.\<close>

lemma escape_char_plain:
  "32 \<le> c \<Longrightarrow> c \<le> 126 \<Longrightarrow> c \<noteq> 34 \<Longrightarrow> c \<noteq> 92 \<Longrightarrow> escape_char c = [c]"
  by (simp add: escape_char_def)

lemma concat_escape_plain:
  "list_all (\<lambda>c. 32 \<le> c \<and> c \<le> 126 \<and> c \<noteq> 34 \<and> c \<noteq> 92) s \<Longrightarrow> concat (map escape_char s) = s"
  by (induction s) (simp_all add: escape_char_plain)

lemma zero_pad_plain:
  "list_all (\<lambda>c. 32 \<le> c \<and> c \<le> 126 \<and> c \<noteq> 34 \<and> c \<noteq> 92) (zero_pad k n)"
proof -
  have "list_all (\<lambda>c. 32 \<le> c \<and> c \<le> 126 \<and> c \<noteq> 34 \<and> c \<noteq> 92) (digits n)"
    using digits_all_digit [of n] by (auto simp: list_all_iff isdigit_def)
  then show ?thesis by (auto simp: zero_pad_def list_all_iff)
qed

lemma encode_isoformat: "encode_basestring_ascii (isoformat dt) = [34] @ isoformat dt @ [34]"
proof -
  have "list_all (\<lambda>c. 32 \<le> c \<and> c \<le> 126 \<and> c \<noteq> 34 \<and> c \<noteq> 92) (isoformat dt)"
    by (simp add: isoformat_def zero_pad_plain)
  then show ?thesis by (simp add: encode_basestring_ascii_def concat_escape_plain)
qed

lemma success_body_layout:
  "json_dumps (PDict
     [(lit ''translated_text'', translated),
      (lit ''detected_source_language'', source_code),
      (lit ''target_language'', target_code),
      (lit ''timestamp'', PStr (isoformat utcnow))]) =
   ([123] @ encode_basestring_ascii (lit ''translated_text'') @ lit '': '' @ json_dumps translated
      @ lit '', '' @ encode_basestring_ascii (lit ''detected_source_language'') @ lit '': ''
      @ json_dumps source_code
      @ lit '', '' @ encode_basestring_ascii (lit ''target_language'') @ lit '': ''
      @ json_dumps target_code
      @ lit '', '' @ encode_basestring_ascii (lit ''timestamp'') @ lit '': '' @ [34])
   @ isoformat utcnow @ [34, 125]"
  by (simp add: encode_isoformat)



section \<open>The fixtures, evaluated\<close>

text \<open>The fixtures, decoded and validated.\<close>

lemma fixture_loads_simps:
  "fixture_loads (lit ''{\"text\": \"Hello world!\", \"target_language\": \"es\"}'') = Inr (PDict hello_request)"
  "fixture_loads (lit ''{\"text\": \"Hello world!\"}'') = Inr (PDict [(lit ''text'', PStr (lit ''Hello world!''))])"
  "fixture_loads (lit ''{\"text\": \"\", \"target_language\": \"es\"}'') =
     Inr (PDict [(lit ''text'', PStr []), (lit ''target_language'', PStr (lit ''es''))])"
  "fixture_loads (lit ''{}'') = Inr (PDict [])"
  "fixture_loads (lit ''null'') = Inr PNone"
  "fixture_loads (lit ''true'') = Inr (PBool True)"
  "fixture_loads (lit ''5'') = Inr (PInt 5)"
  "fixture_loads (lit ''{\"text\": \"Hello world!\", \"target_language\": \"es\"'') =
     Inl (JSONDecodeError (lit ''Expecting value: line 1 column 1 (char 0)''))"
  by (simp_all add: fixture_loads_def fixture_documents_def)

lemma strip_hello: "strip (lit ''Hello world!'') \<noteq> []"
  by (simp add: strip_empty_iff lit_def isspace_def)

lemma valid_event_parsed: "parse_body fixture_loads valid_event = Inr (PDict hello_request)"
  by (simp add: valid_event_def parse_body_fixture fixture_loads_simps)

lemma hello_request_fields:
  "map_of hello_request (lit ''text'') = Some (PStr (lit ''Hello world!''))"
  "map_of hello_request (lit ''target_language'') = Some (PStr (lit ''es''))"
  "py_get (PDict hello_request) (lit ''source_language'') (PStr (lit ''auto'')) = Inr (PStr (lit ''auto''))"
  by (simp_all add: hello_request_def)

lemma mock_reply_fields:
  "py_getitem (PDict [(lit ''TranslatedText'', PStr ([161] @ lit ''Hola mundo!'')),
                 (lit ''SourceLanguageCode'', PStr (lit ''en'')),
                 (lit ''TargetLanguageCode'', PStr (lit ''es''))]) (lit ''TranslatedText'') = Inr (PStr ([161] @ lit ''Hola mundo!''))"
  "py_getitem (PDict [(lit ''TranslatedText'', PStr ([161] @ lit ''Hola mundo!'')),
                 (lit ''SourceLanguageCode'', PStr (lit ''en'')),
                 (lit ''TargetLanguageCode'', PStr (lit ''es''))]) (lit ''SourceLanguageCode'') = Inr (PStr (lit ''en''))"
  "py_getitem (PDict [(lit ''TranslatedText'', PStr ([161] @ lit ''Hola mundo!'')),
                 (lit ''SourceLanguageCode'', PStr (lit ''en'')),
                 (lit ''TargetLanguageCode'', PStr (lit ''es''))]) (lit ''TargetLanguageCode'') = Inr (PStr (lit ''es''))"
  by simp_all


lemma isoformat_fixture_moments:
  "isoformat leap_day_morning = lit ''2024-02-29T07:05:09.001234''"
  "isoformat new_year_midnight = lit ''2025-01-01T00:00:00''"
  by code_simp+

text \<open>The scenario of the test suite, with the body as the text the caller receives.\<close>

lemma hello_world_scenario:
  "lambda_handler fixture_loads mock_translate leap_day_morning valid_event None =
     Some \<lparr>statusCode = 200,
           headers = Some [(lit ''Content-Type'', lit ''application/json''),
                           (lit ''Access-Control-Allow-Origin'', lit ''*'')],
           body = lit ''{\"translated_text\": \"'' @ [92] @ lit ''u00a1Hola mundo!\", '' @
                  lit ''\"detected_source_language\": \"en\", \"target_language\": \"es\", '' @
                  lit ''\"timestamp\": \"2024-02-29T07:05:09.001234\"}''\<rparr>"
proof -
  have "json_dumps (PDict
             [(lit ''translated_text'', PStr ([161] @ lit ''Hola mundo!'')),
              (lit ''detected_source_language'', PStr (lit ''en'')),
              (lit ''target_language'', PStr (lit ''es'')),
              (lit ''timestamp'', PStr (isoformat leap_day_morning))]) =
        lit ''{\"translated_text\": \"'' @ [92] @ lit ''u00a1Hola mundo!\", '' @
                  lit ''\"detected_source_language\": \"en\", \"target_language\": \"es\", '' @
                  lit ''\"timestamp\": \"2024-02-29T07:05:09.001234\"}''"
    unfolding success_body_layout isoformat_fixture_moments
    by (simp add: lit_def encode_basestring_ascii_def escape_char_def unicode_escape_def
        hex4_def hex_digit_def)
  then show ?thesis
    by (simp only: handler_succeeds [OF valid_event_parsed hello_request_fields(1) strip_hello
        hello_request_fields(2,3) mock_translate_def mock_reply_fields])
qed

section \<open>The claims\<close>


















text \<open>
  C9: two invocations on the same valid event, with a provider that gives the same reply,
  at any two moments and under any two contexts, return envelopes with the same status
  and headers whose bodies are one and the same text around the two timestamps.
\<close>

theorem bodies_differ_in_timestamp_only:
  assumes "parse_body loads event = Inr (PDict kvs)"
    and "map_of kvs (lit ''text'') = Some (PStr t)" and "strip t \<noteq> []"
    and "map_of kvs (lit ''target_language'') = Some tgt"
    and "py_get (PDict kvs) (lit ''source_language'') (PStr (lit ''auto'')) = Inr src"
    and "translate_text (PStr t) src tgt = Inr reply"
    and "py_getitem reply (lit ''TranslatedText'') = Inr translated"
    and "py_getitem reply (lit ''SourceLanguageCode'') = Inr source_code"
    and "py_getitem reply (lit ''TargetLanguageCode'') = Inr target_code"
  shows "\<exists>env1 env2 pre post.
           lambda_handler loads translate_text utcnow1 event ctx1 = Some env1 \<and>
           lambda_handler loads translate_text utcnow2 event ctx2 = Some env2 \<and>
           statusCode env1 = statusCode env2 \<and> headers env1 = headers env2 \<and>
           body env1 = pre @ isoformat utcnow1 @ post \<and>
           body env2 = pre @ isoformat utcnow2 @ post"
proof -
  define pre where "pre =
    [123] @ encode_basestring_ascii (lit ''translated_text'') @ lit '': '' @ json_dumps translated
      @ lit '', '' @ encode_basestring_ascii (lit ''detected_source_language'') @ lit '': ''
      @ json_dumps source_code
      @ lit '', '' @ encode_basestring_ascii (lit ''target_language'') @ lit '': ''
      @ json_dumps target_code
      @ lit '', '' @ encode_basestring_ascii (lit ''timestamp'') @ lit '': '' @ [34]"
  define envelope_at where "envelope_at now =
    \<lparr>statusCode = 200,
     headers = Some [(lit ''Content-Type'', lit ''application/json''),
                     (lit ''Access-Control-Allow-Origin'', lit ''*'')],
     body = pre @ isoformat now @ [34, 125]\<rparr>" for now
  have result: "lambda_handler loads translate_text now event c = Some (envelope_at now)" for now c
    unfolding envelope_at_def pre_def success_body_layout [symmetric]
    by (rule handler_succeeds [where loads = loads and translate_text = translate_text, OF assms])
  have "lambda_handler loads translate_text utcnow1 event ctx1 = Some (envelope_at utcnow1) \<and>
        lambda_handler loads translate_text utcnow2 event ctx2 = Some (envelope_at utcnow2) \<and>
        statusCode (envelope_at utcnow1) = statusCode (envelope_at utcnow2) \<and>
        headers (envelope_at utcnow1) = headers (envelope_at utcnow2) \<and>
        body (envelope_at utcnow1) = pre @ isoformat utcnow1 @ [34, 125] \<and>
        body (envelope_at utcnow2) = pre @ isoformat utcnow2 @ [34, 125]"
    by (simp add: result) (simp add: envelope_at_def)
  then show ?thesis by blast
qed

theorem bodies_differ_in_timestamp_only_witness:
  "\<exists>env1 env2 pre post.
     lambda_handler fixture_loads mock_translate leap_day_morning valid_event None = Some env1 \<and>
     lambda_handler fixture_loads mock_translate new_year_midnight valid_event (Some test_context)
       = Some env2 \<and>
     statusCode env1 = statusCode env2 \<and> headers env1 = headers env2 \<and>
     body env1 = pre @ isoformat leap_day_morning @ post \<and>
     body env2 = pre @ isoformat new_year_midnight @ post"
  by (rule bodies_differ_in_timestamp_only [OF valid_event_parsed hello_request_fields(1)
        strip_hello hello_request_fields(2,3) mock_translate_def mock_reply_fields])



end
